theory Spec2Isabelle
  imports Complex_Main
begin

section \<open>Python values and exceptions\<close>

text \<open>
  Configuration data reaches the program as nested Python dictionaries, lists, strings and
  numbers. A dictionary is an association list with string keys (looked up with
  \<open>map_of\<close>, iterated in order). A float is carried as a real number: the program
  never computes with configuration numbers, it only attaches a unit to them.
\<close>

datatype pyval =
    PNone
  | PInt int
  | PFloat real
  | PStr string
  | PList "pyval list"
  | PDict "(string \<times> pyval) list"

type_synonym pydict = "(string \<times> pyval) list"

text \<open>
  Exceptions. \<open>Error\<close>, \<open>NotFound\<close>, \<open>InvalidCommand\<close> and \<open>PanError\<close> are the classes
  of the project's own \<open>error\<close> module that the two source files raise; the others are
  Python's built-in exceptions. An \<open>assert cond, msg\<close> that fails raises
  \<open>AssertionError\<close> with the message object as its argument, whatever the class of that
  object. \<open>Other\<close> stands for any exception of an external collaborator.
\<close>

datatype exn =
    AssertionError "exn option"
  | AttributeError string
  | TypeError
  | UnboundLocalError string
  | ImportError string
  | ProcessLookupError
  | OSError string
  | Error pyval
  | NotFound pyval
  | InvalidCommand string
  | PanError string
  | Other string

text \<open>The project's structured errors, as opposed to exceptions of the Python runtime.\<close>

fun is_project_error :: "exn \<Rightarrow> bool" where
  "is_project_error (Error m) = True"
| "is_project_error (NotFound m) = True"
| "is_project_error (InvalidCommand m) = True"
| "is_project_error (PanError m) = True"
| "is_project_error e = False"

text \<open>
  \<open>except error.InvalidCommand\<close> catches that class only: \<open>PanError\<close> is the base class of
  the error module, not a subclass of \<open>InvalidCommand\<close>.
\<close>

fun is_InvalidCommand :: "exn \<Rightarrow> bool" where
  "is_InvalidCommand (InvalidCommand m) = True"
| "is_InvalidCommand e = False"

text \<open>Sequencing of computations that may raise.\<close>

definition exn_bind :: "exn + 'a \<Rightarrow> ('a \<Rightarrow> exn + 'b) \<Rightarrow> exn + 'b" where
  "exn_bind m f = (case m of Inl e \<Rightarrow> Inl e | Inr x \<Rightarrow> f x)"

text \<open>\<open>d.get(k, default)\<close>: only a dictionary has the method.\<close>

fun py_get :: "pyval \<Rightarrow> string \<Rightarrow> pyval \<Rightarrow> exn + pyval" where
  "py_get (PDict kvs) k d = Inr (case map_of kvs k of None \<Rightarrow> d | Some v \<Rightarrow> v)"
| "py_get v k d = Inl (AttributeError ''get'')"

text \<open>\<open>self.config.get(k)\<close> on the configuration dictionary.\<close>

definition config_get :: "pydict \<Rightarrow> string \<Rightarrow> pyval" where
  "config_get cfg k = (case map_of cfg k of None \<Rightarrow> PNone | Some v \<Rightarrow> v)"

text \<open>
  \<open>for x in v\<close>: a list yields its elements, a dictionary its keys, a string its
  characters; \<open>None\<close> and numbers are not iterable.
\<close>

fun py_iter :: "pyval \<Rightarrow> exn + pyval list" where
  "py_iter (PList xs) = Inr xs"
| "py_iter (PDict kvs) = Inr (map (\<lambda>kv. PStr (fst kv)) kvs)"
| "py_iter (PStr s) = Inr (map (\<lambda>c. PStr [c]) s)"
| "py_iter v = Inl TypeError"

text \<open>\<open>sep.join(xs)\<close> and the decimal text of a natural number.\<close>

fun join :: "string \<Rightarrow> string list \<Rightarrow> string" where
  "join sep [] = []"
| "join sep [x] = x"
| "join sep (x # y # ys) = x @ sep @ join sep (y # ys)"

fun str_nat :: "nat \<Rightarrow> string" where
  "str_nat n = (if n < 10 then [''0123456789'' ! n]
                else str_nat (n div 10) @ [''0123456789'' ! (n mod 10)])"

declare str_nat.simps [simp del]

section \<open>The INDI server manager (utils/indi/server.py)\<close>

text \<open>
  The operating system as \<open>PanIndiServer\<close> sees it. \<open>paths\<close> are the paths that exist
  (procfs entries included), \<open>ptable\<close> maps each process id the kernel knows to its
  process group. The outcome of each call that can fail for reasons outside the program
  is part of the world: \<open>mkfifo_error\<close>, \<open>popen_result\<close> and \<open>unlink_error\<close> give the
  text of the exception raised (or the new process id), \<open>write_errors\<close> gives the
  outcome of each coming attempt to open, write, flush and close the pipe, in order
  (an exhausted list means success). \<open>sigterm\<close>, \<open>written\<close> and \<open>spawned\<close> record what
  the program did: processes signalled, (path, text) of each completed write, command
  lines started.

  \<open>fifos\<close> are the paths that, where they exist, are named pipes, and \<open>pipe_readers\<close>
  gives for each path the processes that hold it open for reading; which processes
  read a pipe is the world's matter (a spawned server opens its pipe some time after
  it was started, and a process that has exited reads nothing). Opening a named pipe
  for writing returns only once a process reads it: with no reader the call does not
  return, and the result of the call is \<open>None\<close>.
\<close>

record world =
  which_indiserver :: "string option"
  paths :: "string set"
  fifos :: "string set"
  pipe_readers :: "string \<Rightarrow> nat set"
  ptable :: "nat \<rightharpoonup> nat"
  own_pgid :: nat
  mkfifo_error :: "string option"
  popen_result :: "string + nat"
  unlink_error :: "string option"
  write_errors :: "string option list"
  sigterm :: "nat list"
  written :: "(string \<times> string) list"
  spawned :: "string list list"

text \<open>
  The attributes of a \<open>PanIndiServer\<close> object. \<open>None\<close> in \<open>proc\<close> or \<open>connected\<close> means
  that the attribute has not been assigned; \<open>proc\<close> holds the pid of the \<open>Popen\<close> object.
\<close>

record PanIndiServer =
  indiserver :: string
  fifo :: string
  proc :: "nat option"
  connected :: "bool option"

text \<open>
  \<open>start\<close> (lines 58-88). The handler of a failed \<open>Popen\<close> formats \<open>self.host\<close> and
  \<open>self.port\<close>, attributes that the class never defines, so the handler itself raises
  \<open>AttributeError\<close>.
\<close>

definition start :: "PanIndiServer \<Rightarrow> string list \<Rightarrow> world \<Rightarrow> (exn + nat) \<times> world" where
  "start self args w =
     (case (if fifo self \<notin> paths w
            then (case mkfifo_error w of
                    None \<Rightarrow> Inr (w\<lparr>paths := insert (fifo self) (paths w),
                                   fifos := insert (fifo self) (fifos w)\<rparr>)
                  | Some e \<Rightarrow> Inl e)
            else Inr w) of
        Inl e \<Rightarrow>
          (Inl (InvalidCommand (''Can't open fifo at '' @ fifo self @ [CHR '' '', CHR 0x09, CHR '' ''] @ e)), w)
      | Inr w1 \<Rightarrow>
          (let cmd = [indiserver self];
               opts = (if args \<noteq> [] then args else [''-m'', ''100'', ''-f'', fifo self]);
               cmd = cmd @ opts
           in case popen_result w1 of
                Inr pid \<Rightarrow>
                  (Inr pid,
                   w1\<lparr>ptable := (ptable w1)(pid \<mapsto> own_pgid w1),
                      paths := insert (''/proc/'' @ str_nat pid) (paths w1),
                      spawned := spawned w1 @ [cmd]\<rparr>)
              | Inl e \<Rightarrow> (Inl (AttributeError ''host''), w1)))"

text \<open>
  \<open>__init__\<close> (lines 20-34). A failure of \<open>start\<close> is caught and logged, which leaves
  \<open>_proc\<close> unassigned; the last line then formats \<open>self._proc\<close>.
\<close>

definition PanIndiServer_init :: "string \<Rightarrow> world \<Rightarrow> (exn + PanIndiServer) \<times> world" where
  "PanIndiServer_init fifo_path w =
     (case which_indiserver w of
        None \<Rightarrow> (Inl (AssertionError (Some (PanError ''Cannot find indiserver command''))), w)
      | Some path \<Rightarrow>
          (let self = \<lparr>indiserver = path, fifo = fifo_path, proc = None, connected = None\<rparr>;
               (r, w1) = start self [] w;
               self = (case r of Inr pid \<Rightarrow> self\<lparr>proc := Some pid\<rparr> | Inl e \<Rightarrow> self);
               self = self\<lparr>connected := Some False\<rparr>
           in case proc self of
                None \<Rightarrow> (Inl (AttributeError ''_proc''), w1)
              | Some pid \<Rightarrow> (Inr self, w1)))"

text \<open>
  \<open>is_connected\<close> (lines 41-52). The handler reads \<open>self._proc.pid\<close> again, so an
  object without \<open>_proc\<close> raises from inside the handler.
\<close>

definition is_connected :: "PanIndiServer \<Rightarrow> world \<Rightarrow> (exn + bool) \<times> PanIndiServer" where
  "is_connected self w =
     (case proc self of
        None \<Rightarrow> (Inl (AttributeError ''_proc''), self)
      | Some pid \<Rightarrow>
          (let self = self\<lparr>connected := Some ((''/proc/'' @ str_nat pid) \<in> paths w)\<rparr>
           in case connected self of
                None \<Rightarrow> (Inl (AttributeError ''_connected''), self)
              | Some c \<Rightarrow> (Inr c, self)))"

text \<open>
  \<open>stop\<close> (lines 90-97). \<open>os.getpgid\<close> raises \<open>ProcessLookupError\<close> for a pid the kernel
  does not know; \<open>terminate\<close> sends SIGTERM.
\<close>

definition stop :: "PanIndiServer \<Rightarrow> world \<Rightarrow> (exn + unit) \<times> world" where
  "stop self w =
     (case proc self of
        None \<Rightarrow> (Inl (AttributeError ''_proc''), w)
      | Some pid \<Rightarrow>
          (case ptable w pid of
             None \<Rightarrow> (Inl ProcessLookupError, w)
           | Some pgid \<Rightarrow>
               (let w1 = (if pgid \<noteq> 0 then w\<lparr>sigterm := sigterm w @ [pid]\<rparr> else w)
                in if fifo self \<in> paths w1
                   then (case unlink_error w1 of
                           Some e \<Rightarrow> (Inl (OSError e), w1)
                         | None \<Rightarrow> (Inr (), w1\<lparr>paths := paths w1 - {fifo self}\<rparr>))
                   else (Inr (), w1))))"

text \<open>\<open>__del__\<close> (lines 157-158).\<close>

definition PanIndiServer_del :: "PanIndiServer \<Rightarrow> world \<Rightarrow> (exn + unit) \<times> world" where
  "PanIndiServer_del self w = stop self w"

text \<open>
  \<open>_write_to_server\<close> (lines 141-155). \<open>open(self._fifo, 'w')\<close> on a named pipe that
  no process reads does not return. On a path that is missing or a regular file it
  creates or truncates a regular file. Where the open returns, the outcome of the
  open, write, flush and close is the next one of \<open>write_errors\<close>; a failed attempt
  is taken to leave the file system as it was.
\<close>

definition open_blocks :: "world \<Rightarrow> string \<Rightarrow> bool" where
  "open_blocks w path \<longleftrightarrow> path \<in> paths w \<and> path \<in> fifos w \<and> pipe_readers w path = {}"

definition write_to_server :: "PanIndiServer \<Rightarrow> string list \<Rightarrow> world \<Rightarrow> (exn + unit) option \<times> world" where
  "write_to_server self cmd w =
     (case proc self of
        None \<Rightarrow> (Some (Inl (AttributeError ''_proc'')), w)
      | Some pid \<Rightarrow>
          if pid = 0
          then (Some (Inl (AssertionError (Some (InvalidCommand ''No running server found'')))), w)
          else if fifo self = []
          then (Some (Inl (AssertionError (Some (InvalidCommand ''No FIFO file found'')))), w)
          else
            (let str_cmd = join '' '' cmd
             in if open_blocks w (fifo self) then (None, w)
                else
                  (let w1 = (if fifo self \<in> paths w \<and> fifo self \<in> fifos w then w
                             else w\<lparr>paths := insert (fifo self) (paths w),
                                    fifos := fifos w - {fifo self}\<rparr>)
                   in case write_errors w of
                        Some e # rest \<Rightarrow>
                          (Some (Inl (PanError (''Problem writing to FIFO: '' @ e))),
                           w\<lparr>write_errors := rest\<rparr>)
                      | None # rest \<Rightarrow>
                          (Some (Inr ()),
                           w1\<lparr>write_errors := rest, written := written w @ [(fifo self, str_cmd)]\<rparr>)
                      | [] \<Rightarrow>
                          (Some (Inr ()), w1\<lparr>written := written w @ [(fifo self, str_cmd)]\<rparr>))))"

text \<open>
  \<open>load_driver\<close> (lines 117-126) and \<open>unload_driver\<close> (lines 128-135). An empty name is
  falsy, as \<open>None\<close> is.
\<close>

definition load_driver :: "PanIndiServer \<Rightarrow> string \<Rightarrow> string \<Rightarrow> world \<Rightarrow> (exn + unit) option \<times> world" where
  "load_driver self name driver w =
     (let cmd = [''start'', driver];
          cmd = (if name \<noteq> [] then cmd @ [''-n'', ''\"'' @ name @ ''\"'', ''\<newline>''] else cmd)
      in write_to_server self cmd w)"

definition unload_driver :: "PanIndiServer \<Rightarrow> string \<Rightarrow> string \<Rightarrow> world \<Rightarrow> (exn + unit) option \<times> world" where
  "unload_driver self name driver w =
     write_to_server self [''stop'', driver, ''\"'' @ name @ ''\"'', ''\<newline>''] w"

text \<open>
  \<open>load_drivers\<close> (lines 99-111): the items of the dictionary in order; only
  \<open>error.InvalidCommand\<close> is caught. A load that does not return keeps the batch from
  returning.
\<close>

fun load_drivers :: "PanIndiServer \<Rightarrow> (string \<times> string) list \<Rightarrow> world \<Rightarrow> (exn + unit) option \<times> world" where
  "load_drivers self [] w = (Some (Inr ()), w)"
| "load_drivers self ((dev_name, dev_driver) # rest) w =
     (case load_driver self dev_name dev_driver w of
        (None, w1) \<Rightarrow> (None, w1)
      | (Some (Inr u), w1) \<Rightarrow> load_drivers self rest w1
      | (Some (Inl e), w1) \<Rightarrow>
          if is_InvalidCommand e then load_drivers self rest w1 else (Some (Inl e), w1))"

text \<open>
  The objects a caller can hold: those a constructor call returned, after any number of
  \<open>is_connected\<close> reads (the only method that assigns an attribute), in any world.
\<close>

inductive reachable :: "PanIndiServer \<Rightarrow> bool" where
  constructed: "PanIndiServer_init f w = (Inr self, w') \<Longrightarrow> reachable self"
| probed: "reachable self \<Longrightarrow> is_connected self w = (r, self') \<Longrightarrow> reachable self'"

section \<open>The observatory (observatory.py)\<close>

text \<open>
  The units of \<open>astropy.units\<close> that the program uses.
\<close>

datatype astropy_unit = Degree | Bar | Meter

text \<open>
  The dictionary stored in \<open>self.location\<close>, and the attributes of an \<open>Observatory\<close>.
  \<open>'o\<close> is the type of the objects of external libraries and of the subsystem modules:
  quantities, modules, mounts, cameras, schedulers, targets. \<open>location = None\<close> is the
  empty dictionary that \<open>__init__\<close> assigns before \<open>_setup_location\<close> runs.
\<close>

record 'o site =
  site_name :: pyval
  latitude :: 'o
  longitude :: 'o
  elevation :: 'o
  timezone :: pyval
  pressure :: 'o
  horizon :: 'o

record 'o observatory =
  config :: pydict
  location :: "'o site option"
  mount :: "'o option"
  cameras :: "'o list"
  scheduler :: "'o option"

text \<open>
  What the observatory calls but does not define: \<open>'{}'.format(v)\<close> of the Python
  runtime, \<open>load_module\<close> of the project's utilities, the \<open>Mount\<close> and \<open>Camera\<close>
  classes of a loaded module, the \<open>Scheduler\<close> class and its \<open>get_target\<close>, the
  product \<open>v * unit\<close> of astropy, and \<open>os.path.exists\<close>. Each may raise.
\<close>

record 'o runtime =
  str_format :: "pyval \<Rightarrow> string"
  load_module :: "string \<Rightarrow> exn + 'o"
  Mount :: "'o \<Rightarrow> pydict \<Rightarrow> 'o site option \<Rightarrow> exn + 'o"
  Camera :: "'o \<Rightarrow> pyval \<Rightarrow> exn + 'o"
  Scheduler :: "string \<Rightarrow> 'o site option \<Rightarrow> exn + 'o"
  scheduler_get_target :: "'o \<Rightarrow> 'o observatory \<Rightarrow> exn + 'o"
  times_unit :: "pyval \<Rightarrow> astropy_unit \<Rightarrow> exn + 'o"
  path_exists :: "string \<Rightarrow> bool"

text \<open>\<open>_setup_location\<close> (lines 62-104).\<close>

definition setup_location :: "'o runtime \<Rightarrow> 'o observatory \<Rightarrow> exn + 'o observatory" where
  "setup_location rt self =
     (if ''location'' \<in> fst ` set (config self) then
        (let config_site = config_get (config self) ''location'' in
         exn_bind (py_get config_site ''name'' (PStr ''Nameless Location'')) (\<lambda>nm.
         exn_bind (py_get config_site ''latitude'' PNone) (\<lambda>lat0.
         exn_bind (times_unit rt lat0 Degree) (\<lambda>lat.
         exn_bind (py_get config_site ''longitude'' PNone) (\<lambda>lon0.
         exn_bind (times_unit rt lon0 Degree) (\<lambda>lon.
         exn_bind (py_get config_site ''timezone'' PNone) (\<lambda>tz.
         exn_bind (py_get config_site ''pressure'' (PFloat 0.680)) (\<lambda>pr0.
         exn_bind (times_unit rt pr0 Bar) (\<lambda>pr.
         exn_bind (py_get config_site ''elevation'' (PInt 0)) (\<lambda>el0.
         exn_bind (times_unit rt el0 Meter) (\<lambda>el.
         exn_bind (py_get config_site ''horizon'' (PInt 0)) (\<lambda>hz0.
         exn_bind (times_unit rt hz0 Degree) (\<lambda>hz.
           Inr (self\<lparr>location := Some
                  \<lparr>site_name = nm, latitude = lat, longitude = lon, elevation = el,
                   timezone = tz, pressure = pr, horizon = hz\<rparr>\<rparr>))))))))))))))
      else Inl (Error (PStr ''Bad site information'')))"

text \<open>\<open>_create_mount\<close> (lines 106-137); \<open>PNone\<close> is the default argument.\<close>

definition create_mount :: "'o runtime \<Rightarrow> 'o observatory \<Rightarrow> pyval \<Rightarrow> exn + 'o observatory" where
  "create_mount rt self mount_info =
     (let mount_info = (if mount_info = PNone then config_get (config self) ''mount'' else mount_info) in
      exn_bind (py_get mount_info ''model'' PNone) (\<lambda>model.
      exn_bind (load_module rt (''panoptes.mount.'' @ str_format rt model)) (\<lambda>module.
      exn_bind (Mount rt module (config self) (location self)) (\<lambda>m.
        Inr (self\<lparr>mount := Some m\<rparr>)))))"

text \<open>
  \<open>_create_cameras\<close> (lines 139-178). \<open>create_camera\<close> is the body of the loop for one
  entry: only an \<open>ImportError\<close> raised inside the \<open>try\<close> is converted, into \<open>NotFound\<close>,
  which leaves the loop and the method. \<open>cameras_loop\<close> is the loop with its
  accumulator \<open>cameras\<close>.
\<close>

definition create_camera :: "'o runtime \<Rightarrow> pyval \<Rightarrow> exn + 'o" where
  "create_camera rt camera =
     exn_bind (py_get camera ''model'' PNone) (\<lambda>camera_model.
       case exn_bind (load_module rt (''panoptes.camera.'' @ str_format rt camera_model))
              (\<lambda>module. Camera rt module camera) of
         Inl (ImportError err) \<Rightarrow> Inl (NotFound camera_model)
       | Inl e \<Rightarrow> Inl e
       | Inr c \<Rightarrow> Inr c)"

fun cameras_loop :: "'o runtime \<Rightarrow> pyval list \<Rightarrow> 'o list \<Rightarrow> exn + 'o list" where
  "cameras_loop rt [] cams = Inr cams"
| "cameras_loop rt (camera # rest) cams =
     (case create_camera rt camera of
        Inl e \<Rightarrow> Inl e
      | Inr c \<Rightarrow> cameras_loop rt rest (cams @ [c]))"

definition create_cameras :: "'o runtime \<Rightarrow> 'o observatory \<Rightarrow> pyval \<Rightarrow> exn + 'o observatory" where
  "create_cameras rt self camera_info =
     (let camera_info = config_get (config self) ''cameras'';
          camera_info = (if camera_info = PNone then config_get (config self) ''mount'' else camera_info)
      in exn_bind (py_iter camera_info) (\<lambda>entries.
         exn_bind (cameras_loop rt entries []) (\<lambda>cams.
           Inr (self\<lparr>cameras := cams\<rparr>))))"

text \<open>\<open>os.path.join\<close> of posixpath, whose arguments must be strings.\<close>

definition path_join2 :: "string \<Rightarrow> string \<Rightarrow> string" where
  "path_join2 path b =
     (if b \<noteq> [] \<and> hd b = CHR ''/'' then b
      else if path = [] \<or> last path = CHR ''/'' then path @ b
      else path @ ''/'' @ b)"

definition os_path_join :: "string \<Rightarrow> string list \<Rightarrow> string" where
  "os_path_join a p = foldl path_join2 a p"

fun fspath :: "pyval \<Rightarrow> exn + string" where
  "fspath (PStr s) = Inr s"
| "fspath v = Inl TypeError"

definition targets_path :: "pydict \<Rightarrow> exn + string" where
  "targets_path cfg =
     exn_bind (fspath (config_get cfg ''base_dir'')) (\<lambda>base_dir.
     exn_bind (fspath (config_get cfg ''targets_file'')) (\<lambda>targets_file.
       Inr (os_path_join base_dir [''resources/conf_files/targets/'', targets_file])))"

text \<open>\<open>_create_scheduler\<close> (lines 180-195).\<close>

definition create_scheduler :: "'o runtime \<Rightarrow> 'o observatory \<Rightarrow> exn + 'o observatory" where
  "create_scheduler rt self =
     exn_bind (targets_path (config self)) (\<lambda>p.
       if path_exists rt p
       then exn_bind (Scheduler rt p (location self)) (\<lambda>s. Inr (self\<lparr>scheduler := Some s\<rparr>))
       else Inr self)"

text \<open>
  \<open>__init__\<close> (lines 22-43), for a configuration that is a dictionary or \<open>None\<close>. The
  message of the assertion is the value of \<open>logger.warning\<close>, which is \<open>None\<close>.
\<close>

definition Observatory_init :: "'o runtime \<Rightarrow> pydict option \<Rightarrow> exn + 'o observatory" where
  "Observatory_init rt cfg =
     (case cfg of
        None \<Rightarrow> Inl (AssertionError None)
      | Some c \<Rightarrow>
          exn_bind (setup_location rt
                      \<lparr>config = c, location = None, mount = None, cameras = [], scheduler = None\<rparr>) (\<lambda>self.
          exn_bind (create_mount rt (self\<lparr>mount := None, cameras := [], scheduler := None\<rparr>) PNone) (\<lambda>self.
          exn_bind (create_cameras rt self PNone) (\<lambda>self.
            create_scheduler rt self))))"

text \<open>
  \<open>get_target\<close> (lines 49-56): \<open>None\<close> has no attribute \<open>get_target\<close>. The method
  assigns no attribute, so the observatory is the same after the call.
\<close>

definition get_target :: "'o runtime \<Rightarrow> 'o observatory \<Rightarrow> exn + 'o" where
  "get_target rt self =
     (case scheduler self of
        None \<Rightarrow> Inl (AttributeError ''get_target'')
      | Some s \<Rightarrow> scheduler_get_target rt s self)"

text \<open>What \<open>d.get(k, default)\<close> returns for a dictionary \<open>d\<close>.\<close>

definition get_or :: "pydict \<Rightarrow> string \<Rightarrow> pyval \<Rightarrow> pyval" where
  "get_or kvs k d = (case map_of kvs k of None \<Rightarrow> d | Some v \<Rightarrow> v)"

section \<open>Example worlds, servers and configurations\<close>

text \<open>
  A host where \<open>indiserver\<close> is installed, nothing exists yet and every call succeeds;
  the server object a construction returns there and the world it leaves; that world
  once the server process has opened its pipe for reading; after the process has
  exited and been reaped (its pid is gone from the process table and from procfs, the
  pipe is still on disk and nobody reads it); and after the pipe has been removed as
  well. \<open>server_unspawned\<close> has the attributes that \<open>__init__\<close> has assigned when
  \<open>start\<close> failed: \<open>_indiserver\<close>, \<open>_fifo\<close> and \<open>_connected\<close>, not \<open>_proc\<close>.
\<close>

definition fifo0 :: string where
  "fifo0 = ''/tmp/pan_indiFIFO''"

definition world0 :: world where
  "world0 =
     \<lparr>which_indiserver = Some ''/usr/bin/indiserver'', paths = {}, fifos = {},
      pipe_readers = (\<lambda>p. {}), ptable = Map.empty,
      own_pgid = 100, mkfifo_error = None, popen_result = Inr 4242, unlink_error = None,
      write_errors = [], sigterm = [], written = [], spawned = []\<rparr>"

definition server0 :: PanIndiServer where
  "server0 =
     \<lparr>indiserver = ''/usr/bin/indiserver'', fifo = fifo0, proc = Some 4242,
      connected = Some False\<rparr>"


definition world_running :: world where
  "world_running = snd (PanIndiServer_init fifo0 world0)"

definition world_serving :: world where
  "world_serving = world_running\<lparr>pipe_readers := (\<lambda>p. if p = fifo0 then {4242} else {})\<rparr>"

definition world_reaped :: world where
  "world_reaped = world_running\<lparr>ptable := Map.empty, paths := {fifo0}\<rparr>"

definition world_stopped :: world where
  "world_stopped = world_running\<lparr>ptable := Map.empty, paths := {}\<rparr>"

definition world_mkfifo_fails :: world where
  "world_mkfifo_fails = world0\<lparr>mkfifo_error := Some ''[Errno 13] Permission denied''\<rparr>"

definition world_popen_fails :: world where
  "world_popen_fails =
     world0\<lparr>popen_result := Inl ''[Errno 11] Resource temporarily unavailable''\<rparr>"

text \<open>
  The serving world with a first write that fails, and with a second write that fails;
  the world the successful first load leaves in the latter.
\<close>

definition world_broken_pipe :: world where
  "world_broken_pipe = world_serving\<lparr>write_errors := [Some ''[Errno 32] Broken pipe'']\<rparr>"

definition world_second_fails :: world where
  "world_second_fails = world_serving\<lparr>write_errors := [None, Some ''[Errno 32] Broken pipe'']\<rparr>"

definition world_first_loaded :: world where
  "world_first_loaded = snd (load_driver server0 ''cam0'' ''indi_simulator_ccd'' world_second_fails)"

definition devices0 :: "(string \<times> string) list" where
  "devices0 = [(''cam0'', ''indi_simulator_ccd''), (''cam1'', ''indi_simulator_ccd'')]"

text \<open>
  A runtime for the examples. Its objects are quantities, modules and the subsystems
  built from them. Only the two simulator modules can be imported, a number times a unit
  is a quantity and \<open>None\<close> times a unit is a \<open>TypeError\<close>, and no targets file exists.
  \<open>sim_format\<close> renders strings and \<open>None\<close> as Python does; the examples format
  nothing else.
\<close>

datatype sim_obj =
    Quantity pyval astropy_unit
  | Module string
  | MountObj string
  | CameraObj string pyval
  | SchedulerObj string
  | TargetObj

fun sim_format :: "pyval \<Rightarrow> string" where
  "sim_format (PStr s) = s"
| "sim_format PNone = ''None''"
| "sim_format v = ''<object>''"

fun sim_times_unit :: "pyval \<Rightarrow> astropy_unit \<Rightarrow> exn + sim_obj" where
  "sim_times_unit (PInt i) u = Inr (Quantity (PInt i) u)"
| "sim_times_unit (PFloat x) u = Inr (Quantity (PFloat x) u)"
| "sim_times_unit v u = Inl TypeError"

fun sim_Mount :: "sim_obj \<Rightarrow> pydict \<Rightarrow> sim_obj site option \<Rightarrow> exn + sim_obj" where
  "sim_Mount (Module n) c l = Inr (MountObj n)"
| "sim_Mount m c l = Inl (AttributeError ''Mount'')"

fun sim_Camera :: "sim_obj \<Rightarrow> pyval \<Rightarrow> exn + sim_obj" where
  "sim_Camera (Module n) c = Inr (CameraObj n c)"
| "sim_Camera m c = Inl (AttributeError ''Camera'')"

definition sim_load_module :: "string \<Rightarrow> exn + sim_obj" where
  "sim_load_module n =
     (if n = ''panoptes.mount.simulator'' \<or> n = ''panoptes.camera.simulator''
      then Inr (Module n) else Inl (ImportError n))"

definition sim_runtime :: "sim_obj runtime" where
  "sim_runtime =
     \<lparr>str_format = sim_format, load_module = sim_load_module, Mount = sim_Mount,
      Camera = sim_Camera, Scheduler = (\<lambda>p l. Inr (SchedulerObj p)),
      scheduler_get_target = (\<lambda>s obs. Inr TargetObj), times_unit = sim_times_unit,
      path_exists = (\<lambda>p. False)\<rparr>"

definition site0 :: pydict where
  "site0 = [(''name'', PStr ''Mauna Loa''), (''latitude'', PFloat 19.54),
            (''longitude'', PFloat (- 155.58)), (''timezone'', PStr ''US/Hawaii'')]"

definition config_base :: "pyval \<Rightarrow> pyval \<Rightarrow> pydict" where
  "config_base site cams =
     [(''location'', site), (''mount'', PDict [(''model'', PStr ''simulator'')]),
      (''cameras'', cams), (''base_dir'', PStr ''/var/panoptes/POCS''),
      (''targets_file'', PStr ''default_targets.yaml'')]"

definition config_ok :: pydict where
  "config_ok = config_base (PDict site0) (PList [PDict [(''model'', PStr ''simulator'')]])"

definition config_two_cameras :: pydict where
  "config_two_cameras =
     config_base (PDict site0)
       (PList [PDict [(''model'', PStr ''simulator'')], PDict [(''model'', PStr ''bogus'')]])"

definition config_no_timezone :: pydict where
  "config_no_timezone =
     config_base (PDict [(''latitude'', PFloat 19.54), (''longitude'', PFloat (- 155.58))])
       (PList [PDict [(''model'', PStr ''simulator'')]])"

definition config_no_cameras :: pydict where
  "config_no_cameras =
     [(''location'', PDict site0), (''mount'', PDict [(''model'', PStr ''simulator'')]),
      (''base_dir'', PStr ''/var/panoptes/POCS''), (''targets_file'', PStr ''default_targets.yaml'')]"

text \<open>A configuration without cameras whose mount entry is a list of one camera entry.\<close>

definition mount_as_list :: pydict where
  "mount_as_list = [(''mount'', PList [PDict [(''model'', PStr ''simulator'')]])]"

text \<open>
  The observatory that \<open>config_ok\<close> builds, the one that \<open>config_no_timezone\<close> builds,
  and the attributes of an observatory at the start of \<open>__init__\<close>.
\<close>

definition site_ok :: "sim_obj site" where
  "site_ok =
     \<lparr>site_name = PStr ''Mauna Loa'', latitude = Quantity (PFloat 19.54) Degree,
      longitude = Quantity (PFloat (- 155.58)) Degree, elevation = Quantity (PInt 0) Meter,
      timezone = PStr ''US/Hawaii'', pressure = Quantity (PFloat 0.680) Bar,
      horizon = Quantity (PInt 0) Degree\<rparr>"

definition obs_ok :: "sim_obj observatory" where
  "obs_ok =
     \<lparr>config = config_ok, location = Some site_ok,
      mount = Some (MountObj ''panoptes.mount.simulator''),
      cameras = [CameraObj ''panoptes.camera.simulator'' (PDict [(''model'', PStr ''simulator'')])],
      scheduler = None\<rparr>"

definition obs_no_timezone :: "sim_obj observatory" where
  "obs_no_timezone =
     obs_ok\<lparr>config := config_no_timezone,
            location := Some (site_ok\<lparr>site_name := PStr ''Nameless Location'', timezone := PNone\<rparr>)\<rparr>"

definition obs_new :: "pydict \<Rightarrow> sim_obj observatory" where
  "obs_new c = \<lparr>config = c, location = None, mount = None, cameras = [], scheduler = None\<rparr>"

lemmas ex_defs = sim_runtime_def sim_load_module_def config_base_def site0_def
  setup_location_def create_mount_def create_cameras_def create_camera_def create_scheduler_def
  targets_path_def os_path_join_def path_join2_def Observatory_init_def exn_bind_def config_get_def
  get_target_def config_ok_def config_two_cameras_def config_no_timezone_def
  config_no_cameras_def mount_as_list_def obs_ok_def site_ok_def obs_no_timezone_def obs_new_def

section \<open>Properties of the server manager\<close>

subsection \<open>The example server\<close>

lemma str_nat_4242: "str_nat 4242 = ''4242''"
  by (simp add: str_nat.simps)

lemma init_world0: "fst (PanIndiServer_init fifo0 world0) = Inr server0"
  by (simp add: PanIndiServer_init_def start_def world0_def server0_def fifo0_def)

lemma world_running_simps:
  "ptable world_running = [4242 \<mapsto> 100]" "unlink_error world_running = None"
  "write_errors world_running = []" "written world_running = []" "sigterm world_running = []"
  "fifos world_running = {''/tmp/pan_indiFIFO''}" "pipe_readers world_running = (\<lambda>p. {})"
  "paths world_running = {''/proc/4242'', ''/tmp/pan_indiFIFO''}"
  by (simp_all add: world_running_def PanIndiServer_init_def start_def world0_def fifo0_def
        str_nat_4242)

lemmas world_defs = world_serving_def world_reaped_def world_stopped_def world_broken_pipe_def
  world_second_fails_def world_running_simps

lemma reachable_server0: "reachable server0"
proof -
  have "PanIndiServer_init fifo0 world0 = (Inr server0, world_running)"
    using init_world0 by (simp add: world_running_def prod_eq_iff)
  then show ?thesis by (rule reachable.constructed)
qed

subsection \<open>Stopping\<close>

text \<open>
  C3 (stop is idempotent: two calls in succession never raise and leave no pipe file).
  The guard of \<open>stop\<close> asks \<open>os.getpgid\<close> for the process group of the server, and that
  call raises for a process the kernel no longer knows. For the server that the
  constructor returned in \<open>world0\<close>, once its process has exited and been reaped, the
  first \<open>stop\<close> raises \<open>ProcessLookupError\<close>, a second one raises again, and the pipe
  file is still there.
\<close>

theorem stop_raises_after_reap:
  "fst (PanIndiServer_init fifo0 world0) = Inr server0 \<and>
   stop server0 world_reaped = (Inl ProcessLookupError, world_reaped) \<and>
   stop server0 (snd (stop server0 world_reaped)) = (Inl ProcessLookupError, world_reaped) \<and>
   fifo server0 \<in> paths world_reaped"
  using init_world0 by (simp add: stop_def server0_def world_reaped_def)

text \<open>
  While the kernel still knows the process and the pipe can be removed, \<open>stop\<close> returns
  and the pipe is gone; this is the half of the guard that works.
\<close>

lemma stop_known_process:
  "proc self = Some pid \<Longrightarrow> ptable w pid = Some pgid \<Longrightarrow> unlink_error w = None \<Longrightarrow>
     fst (stop self w) = Inr () \<and> fifo self \<notin> paths (snd (stop self w))"
  by (simp add: stop_def Let_def)

subsection \<open>Construction\<close>

text \<open>
  C7 (a failure of pipe or process creation during construction is logged and leaves a
  usable, not connected manager; only a missing executable is fatal). The constructor
  does catch and log the failure of \<open>start\<close>, but then formats \<open>self._proc\<close>, which was
  never assigned. With \<open>indiserver\<close> installed, a failing \<open>mkfifo\<close> makes the
  constructor raise \<open>AttributeError\<close>, and so does a failing \<open>Popen\<close>, which in addition
  leaves the pipe it created on disk.
\<close>

theorem init_raises_when_start_fails:
  "which_indiserver world_mkfifo_fails = Some ''/usr/bin/indiserver'' \<and>
   PanIndiServer_init fifo0 world_mkfifo_fails =
     (Inl (AttributeError ''_proc''), world_mkfifo_fails) \<and>
   fst (PanIndiServer_init fifo0 world_popen_fails) = Inl (AttributeError ''_proc'') \<and>
   fifo0 \<in> paths (snd (PanIndiServer_init fifo0 world_popen_fails))"
  by (simp add: PanIndiServer_init_def start_def world_mkfifo_fails_def world_popen_fails_def
        world0_def)

text \<open>The executable that cannot be found fails the assertion.\<close>

lemma init_without_executable:
  "which_indiserver w = None \<Longrightarrow>
     PanIndiServer_init f w =
       (Inl (AssertionError (Some (PanError ''Cannot find indiserver command''))), w)"
  by (simp add: PanIndiServer_init_def)

subsection \<open>The connection test\<close>

lemma reachable_proc: "reachable self \<Longrightarrow> \<exists>pid. proc self = Some pid"
proof (induction rule: reachable.induct)
  case (constructed f w self w')
  then show ?case
    by (auto simp: PanIndiServer_init_def Let_def split: option.splits prod.splits sum.splits)
next
  case (probed self w r self')
  then show ?case
    by (auto simp: is_connected_def Let_def split: option.splits)
qed

text \<open>
  On every server object that a constructor call returned, whether its process is dead
  or alive, \<open>is_connected\<close> returns a boolean: whether the procfs entry of the pid
  exists.
\<close>

lemma is_connected_of_reachable:
  "reachable self \<Longrightarrow>
     \<exists>pid. proc self = Some pid \<and>
       is_connected self w =
         (Inr (''/proc/'' @ str_nat pid \<in> paths w),
          self\<lparr>connected := Some (''/proc/'' @ str_nat pid \<in> paths w)\<rparr>)"
  using reachable_proc [of self] by (auto simp: is_connected_def Let_def)

lemma is_connected_dead_server:
  "is_connected server0 world_reaped = (Inr False, server0\<lparr>connected := Some False\<rparr>)"
  by (simp add: is_connected_def server0_def world_defs str_nat_4242 fifo0_def)


subsection \<open>Loading one driver\<close>

lemma write_to_server_fst:
  "fst (write_to_server self cmd w) =
     (case proc self of
        None \<Rightarrow> Some (Inl (AttributeError ''_proc''))
      | Some pid \<Rightarrow>
          if pid = 0
          then Some (Inl (AssertionError (Some (InvalidCommand ''No running server found''))))
          else if fifo self = []
          then Some (Inl (AssertionError (Some (InvalidCommand ''No FIFO file found''))))
          else if open_blocks w (fifo self) then None
          else (case write_errors w of
                  Some e # rest \<Rightarrow> Some (Inl (PanError (''Problem writing to FIFO: '' @ e)))
                | _ \<Rightarrow> Some (Inr ())))"
  by (simp add: write_to_server_def Let_def split: option.splits list.splits)

text \<open>
  Against C4 as stated: the process of \<open>server0\<close> is gone and \<open>is_connected\<close> says so.
  With the pipe still on disk and no reader, \<open>load_driver\<close> does not return; with the
  pipe removed, as after \<open>stop\<close>, it returns normally. It raises in neither case.
\<close>

theorem load_driver_not_connected_no_error:
  "fst (is_connected server0 world_reaped) = Inr False \<and>
   fst (load_driver server0 ''cam0'' ''indi_simulator_ccd'' world_reaped) = None \<and>
   fst (is_connected server0 world_stopped) = Inr False \<and>
   fst (load_driver server0 ''cam0'' ''indi_simulator_ccd'' world_stopped) = Some (Inr ())"
  by (simp add: is_connected_def load_driver_def write_to_server_fst open_blocks_def server0_def
        world_defs str_nat_4242 fifo0_def)

text \<open>
  C4, amended (load_driver on a manager that is not connected). \<open>load_driver\<close> makes no
  connection test and raises no error of its own on a manager that is not connected,
  with a pid and a pipe path: it opens the pipe for writing. If the pipe is a named
  pipe on disk that no process reads, the call does not return. Otherwise (another
  process reads the pipe, or the path is missing or a regular file) it returns
  normally when the write succeeds and raises \<open>PanError\<close> when the write fails. The
  class keeps no registry of drivers and the call assigns no attribute.
\<close>

theorem load_driver_not_connected:
  assumes "fst (is_connected self w) = Inr False"
    and "proc self = Some pid" and "pid \<noteq> 0" and "fifo self \<noteq> []"
  shows "fst (load_driver self name driver w) =
           (if fifo self \<in> paths w \<and> fifo self \<in> fifos w \<and> pipe_readers w (fifo self) = {}
            then None
            else (case write_errors w of
                    Some e # rest \<Rightarrow> Some (Inl (PanError (''Problem writing to FIFO: '' @ e)))
                  | _ \<Rightarrow> Some (Inr ())))"
  using assms by (simp add: load_driver_def Let_def write_to_server_fst open_blocks_def)

theorem load_driver_not_connected_witness:
  "fst (is_connected server0 world_stopped) = Inr False \<and>
   fst (is_connected server0 world_reaped) = Inr False \<and> proc server0 = Some 4242 \<and>
   (4242::nat) \<noteq> 0 \<and> fifo server0 \<noteq> [] \<and>
   fst (load_driver server0 ''cam0'' ''indi_simulator_ccd'' world_stopped) = Some (Inr ()) \<and>
   fst (load_driver server0 ''cam0'' ''indi_simulator_ccd'' world_reaped) = None"
proof -
  have a: "fst (is_connected server0 world_stopped) = Inr False"
    by (simp add: is_connected_def server0_def world_defs str_nat_4242)
  have a': "fst (is_connected server0 world_reaped) = Inr False"
    by (simp add: is_connected_def server0_def world_defs str_nat_4242 fifo0_def)
  have b: "proc server0 = Some 4242" "(4242::nat) \<noteq> 0" "fifo server0 \<noteq> []"
    by (simp_all add: server0_def fifo0_def)
  from load_driver_not_connected [OF a b, of "''cam0''" "''indi_simulator_ccd''"]
       load_driver_not_connected [OF a' b, of "''cam0''" "''indi_simulator_ccd''"] a a' b
  show ?thesis by (simp add: world_defs server0_def fifo0_def)
qed

text \<open>
  A load with a non-empty device name, on a server with a pid and a pipe path, whose
  open returns and whose write succeeds, adds exactly one write to the pipe: the tokens
  \<open>start\<close>, the driver, \<open>-n\<close>, the quoted name and a newline, joined by single spaces.
\<close>

lemma load_driver_named_command:
  assumes "name \<noteq> []" and "proc self = Some pid" and "pid \<noteq> 0" and "fifo self \<noteq> []"
    and "\<not> open_blocks w (fifo self)"
    and "write_errors w = [] \<or> hd (write_errors w) = None"
  shows "fst (load_driver self name driver w) = Some (Inr ()) \<and>
         written (snd (load_driver self name driver w)) =
           written w @ [(fifo self, ''start '' @ driver @ '' -n \"'' @ name @ ''\" \<newline>'')]"
  using assms
  by (auto simp: load_driver_def write_to_server_def Let_def split: list.splits option.splits)

text \<open>
  C5 (the bytes of a load command; the trailing newline terminates every load
  command). \<open>load_driver\<close> appends the newline token together with the name, inside
  \<open>if name:\<close>. In the serving world the load of \<open>cam0\<close> writes the line of the claim,
  newline at the end, in one write; the load with an empty name returns normally and
  writes \<open>start indi_simulator_ccd\<close> with no newline, so the command is not terminated.
  \<open>unload_driver\<close> ends its command with the newline also for an empty name.
\<close>

theorem load_driver_without_name_no_newline:
  "fst (load_driver server0 [] ''indi_simulator_ccd'' world_serving) = Some (Inr ()) \<and>
   written (snd (load_driver server0 [] ''indi_simulator_ccd'' world_serving)) =
     [(''/tmp/pan_indiFIFO'', ''start indi_simulator_ccd'')] \<and>
   last ''start indi_simulator_ccd'' \<noteq> CHR 0x0A \<and>
   written (snd (load_driver server0 ''cam0'' ''indi_simulator_ccd'' world_serving)) =
     [(''/tmp/pan_indiFIFO'', ''start indi_simulator_ccd -n \"cam0\" \<newline>'')] \<and>
   written (snd (unload_driver server0 [] ''indi_simulator_ccd'' world_serving)) =
     [(''/tmp/pan_indiFIFO'', ''stop indi_simulator_ccd \"\" \<newline>'')]"
  by (simp add: load_driver_def unload_driver_def write_to_server_def open_blocks_def server0_def
        fifo0_def world_defs)

subsection \<open>Loading a batch of drivers\<close>

lemma write_to_server_not_InvalidCommand:
  "fst (write_to_server self cmd w) = Some (Inl e) \<Longrightarrow> \<not> is_InvalidCommand e"
  by (auto simp: write_to_server_fst split: option.splits if_splits list.splits)

lemma load_driver_not_InvalidCommand:
  "fst (load_driver self name driver w) = Some (Inl e) \<Longrightarrow> \<not> is_InvalidCommand e"
  unfolding load_driver_def Let_def by (rule write_to_server_not_InvalidCommand)

lemma load_drivers_append:
  "load_drivers self (pre @ post) w =
     (case load_drivers self pre w of
        (Some (Inr u), w1) \<Rightarrow> load_drivers self post w1
      | r \<Rightarrow> r)"
proof (induction pre arbitrary: w)
  case Nil
  show ?case by simp
next
  case (Cons d pre)
  obtain n drv where d: "d = (n, drv)" by (cases d)
  obtain r w1 where l: "load_driver self n drv w = (r, w1)" by (cases "load_driver self n drv w")
  show ?case
  proof (cases r)
    case None
    with d l show ?thesis by simp
  next
    case (Some x)
    show ?thesis
    proof (cases x)
      case (Inl e)
      with Some d l Cons.IH [of w1] show ?thesis by simp
    next
      case (Inr u)
      with Some d l Cons.IH [of w1] show ?thesis by simp
    qed
  qed
qed

lemma load_drivers_head_failure:
  "fst (load_driver self n d w) = Some (Inl e) \<Longrightarrow> \<not> is_InvalidCommand e \<Longrightarrow>
     load_drivers self ((n, d) # rest) w = load_driver self n d w"
  by (cases "load_driver self n d w") auto

text \<open>
  Against C6 as stated: the write for the first of two devices fails with a broken pipe;
  \<open>load_drivers\<close> raises \<open>PanError\<close> and nothing is written for the second device.
\<close>

theorem load_drivers_batch_aborted:
  "load_drivers server0 devices0 world_broken_pipe =
     (Some (Inl (PanError ''Problem writing to FIFO: [Errno 32] Broken pipe'')),
      world_broken_pipe\<lparr>write_errors := []\<rparr>) \<and>
   written (snd (load_drivers server0 devices0 world_broken_pipe)) = []"
  by (simp add: devices0_def load_driver_def write_to_server_def open_blocks_def server0_def
        fifo0_def world_defs)

text \<open>
  C6, amended (per-device failures in load_drivers). A failure of a device that is not
  an \<open>InvalidCommand\<close> is not caught, whatever the position of the device in the batch:
  when the devices before it have been loaded, \<open>load_drivers\<close> ends with the exception
  of that device, in the world its load left, and the devices after it are not
  attempted. A write failure is such a failure: \<open>_write_to_server\<close> raises it as
  \<open>PanError\<close>. And a batch that returns normally has loaded every device before any
  given one and has met no such failure at it.
\<close>

theorem load_drivers_failure_propagates:
  "(load_drivers self pre w = (Some (Inr ()), w1) \<and>
    fst (load_driver self dev_name dev_driver w1) = Some (Inl e) \<and> \<not> is_InvalidCommand e
      \<longrightarrow> load_drivers self (pre @ (dev_name, dev_driver) # rest) w =
            load_driver self dev_name dev_driver w1) \<and>
   (proc self = Some pid \<and> pid \<noteq> 0 \<and> fifo self \<noteq> [] \<and> \<not> open_blocks w1 (fifo self) \<and>
    write_errors w1 = Some msg # outcomes
      \<longrightarrow> fst (load_driver self dev_name dev_driver w1) =
            Some (Inl (PanError (''Problem writing to FIFO: '' @ msg))) \<and>
          \<not> is_InvalidCommand (PanError (''Problem writing to FIFO: '' @ msg))) \<and>
   (fst (load_drivers self (pre @ (dev_name, dev_driver) # rest) w) = Some (Inr ())
      \<longrightarrow> (\<exists>w2. load_drivers self pre w = (Some (Inr ()), w2) \<and>
                (\<forall>x. fst (load_driver self dev_name dev_driver w2) = Some (Inl x)
                       \<longrightarrow> is_InvalidCommand x)))"
proof (intro conjI impI)
  assume a: "load_drivers self pre w = (Some (Inr ()), w1) \<and>
    fst (load_driver self dev_name dev_driver w1) = Some (Inl e) \<and> \<not> is_InvalidCommand e"
  then have "load_drivers self ((dev_name, dev_driver) # rest) w1 =
               load_driver self dev_name dev_driver w1"
    using load_drivers_head_failure [of self dev_name dev_driver w1 e rest] by blast
  with a show "load_drivers self (pre @ (dev_name, dev_driver) # rest) w =
            load_driver self dev_name dev_driver w1"
    by (simp add: load_drivers_append del: load_drivers.simps)
next
  assume "proc self = Some pid \<and> pid \<noteq> 0 \<and> fifo self \<noteq> [] \<and> \<not> open_blocks w1 (fifo self) \<and>
    write_errors w1 = Some msg # outcomes"
  then show "fst (load_driver self dev_name dev_driver w1) =
            Some (Inl (PanError (''Problem writing to FIFO: '' @ msg)))"
    by (simp add: load_driver_def Let_def write_to_server_fst)
next
  show "\<not> is_InvalidCommand (PanError (''Problem writing to FIFO: '' @ msg))" by simp
next
  assume ok: "fst (load_drivers self (pre @ (dev_name, dev_driver) # rest) w) = Some (Inr ())"
  obtain r w2 where p: "load_drivers self pre w = (r, w2)" by (cases "load_drivers self pre w")
  have r: "r = Some (Inr ())"
  proof (rule ccontr)
    assume "r \<noteq> Some (Inr ())"
    with p have "load_drivers self (pre @ (dev_name, dev_driver) # rest) w = (r, w2)"
      by (cases r) (auto simp: load_drivers_append simp del: load_drivers.simps split: sum.splits)
    with ok \<open>r \<noteq> Some (Inr ())\<close> show False by simp
  qed
  have "\<forall>x. fst (load_driver self dev_name dev_driver w2) = Some (Inl x) \<longrightarrow> is_InvalidCommand x"
  proof (intro allI impI, rule ccontr)
    fix x
    assume f: "fst (load_driver self dev_name dev_driver w2) = Some (Inl x)"
      and n: "\<not> is_InvalidCommand x"
    from f n have "load_drivers self ((dev_name, dev_driver) # rest) w2 =
                     load_driver self dev_name dev_driver w2"
      by (rule load_drivers_head_failure)
    with p r have "load_drivers self (pre @ (dev_name, dev_driver) # rest) w =
                         load_driver self dev_name dev_driver w2"
      by (simp add: load_drivers_append del: load_drivers.simps)
    with ok f show False by simp
  qed
  with p r show "\<exists>w2. load_drivers self pre w = (Some (Inr ()), w2) \<and>
                (\<forall>x. fst (load_driver self dev_name dev_driver w2) = Some (Inl x)
                       \<longrightarrow> is_InvalidCommand x)"
    by blast
qed

theorem load_drivers_failure_propagates_witness:
  "load_drivers server0 [(''cam0'', ''indi_simulator_ccd'')] world_second_fails =
     (Some (Inr ()), world_first_loaded) \<and>
   fst (load_driver server0 ''cam1'' ''indi_simulator_ccd'' world_first_loaded) =
     Some (Inl (PanError ''Problem writing to FIFO: [Errno 32] Broken pipe'')) \<and>
   load_drivers server0
       ([(''cam0'', ''indi_simulator_ccd'')] @ (''cam1'', ''indi_simulator_ccd'') #
        [(''cam2'', ''indi_simulator_ccd'')]) world_second_fails =
     load_driver server0 ''cam1'' ''indi_simulator_ccd'' world_first_loaded \<and>
   map fst (written (snd (load_drivers server0
       ([(''cam0'', ''indi_simulator_ccd'')] @ (''cam1'', ''indi_simulator_ccd'') #
        [(''cam2'', ''indi_simulator_ccd'')]) world_second_fails))) = [''/tmp/pan_indiFIFO''] \<and>
   fst (load_drivers server0 ([] @ (''cam0'', ''indi_simulator_ccd'') # []) world_serving) =
     Some (Inr ()) \<and>
   load_drivers server0 [] world_serving = (Some (Inr ()), world_serving)"
proof -
  have w1: "write_errors world_first_loaded = [Some ''[Errno 32] Broken pipe'']"
       "\<not> open_blocks world_first_loaded (fifo server0)"
       "written world_first_loaded =
          [(''/tmp/pan_indiFIFO'', ''start indi_simulator_ccd -n \"cam0\" \<newline>'')]"
    by (simp_all add: world_first_loaded_def load_driver_def write_to_server_def open_blocks_def
          server0_def fifo0_def world_defs)
  have a: "load_drivers server0 [(''cam0'', ''indi_simulator_ccd'')] world_second_fails =
     (Some (Inr ()), world_first_loaded)"
    by (simp add: world_first_loaded_def load_driver_def write_to_server_def open_blocks_def
          server0_def fifo0_def world_defs)
  have b: "proc server0 = Some 4242 \<and> (4242::nat) \<noteq> 0 \<and> fifo server0 \<noteq> [] \<and>
           \<not> open_blocks world_first_loaded (fifo server0) \<and>
           write_errors world_first_loaded = Some ''[Errno 32] Broken pipe'' # []"
    using w1 by (simp add: server0_def fifo0_def)
  note T = load_drivers_failure_propagates
             [where self = server0 and pre = "[(''cam0'', ''indi_simulator_ccd'')]"
                and w = world_second_fails and ?w1.0 = world_first_loaded
                and dev_name = "''cam1''" and dev_driver = "''indi_simulator_ccd''"
                and e = "PanError ''Problem writing to FIFO: [Errno 32] Broken pipe''"
                and rest = "[(''cam2'', ''indi_simulator_ccd'')]" and pid = 4242
                and msg = "''[Errno 32] Broken pipe''" and outcomes = "[]"]
  from T b have c: "fst (load_driver server0 ''cam1'' ''indi_simulator_ccd'' world_first_loaded) =
     Some (Inl (PanError ''Problem writing to FIFO: [Errno 32] Broken pipe''))"
    by simp
  from T a c have d: "load_drivers server0
       ([(''cam0'', ''indi_simulator_ccd'')] @ (''cam1'', ''indi_simulator_ccd'') #
        [(''cam2'', ''indi_simulator_ccd'')]) world_second_fails =
     load_driver server0 ''cam1'' ''indi_simulator_ccd'' world_first_loaded"
    by simp
  have e: "written (snd (load_driver server0 ''cam1'' ''indi_simulator_ccd'' world_first_loaded))
             = written world_first_loaded"
    by (simp add: load_driver_def write_to_server_def Let_def w1 server0_def fifo0_def)
  have f: "fst (load_drivers server0 ([] @ (''cam0'', ''indi_simulator_ccd'') # []) world_serving) =
     Some (Inr ())"
    by (simp add: load_driver_def write_to_server_def open_blocks_def server0_def fifo0_def
          world_defs)
  from load_drivers_failure_propagates
         [where self = server0 and pre = "[]" and w = world_serving
            and dev_name = "''cam0''" and dev_driver = "''indi_simulator_ccd''" and rest = "[]"] f
  have g: "load_drivers server0 [] world_serving = (Some (Inr ()), world_serving)"
    by simp
  from a c d e f g w1 show ?thesis by simp
qed

section \<open>Properties of the observatory\<close>

subsection \<open>The stages of construction\<close>

lemma exn_bind_Inr: "exn_bind m g = Inr y \<longleftrightarrow> (\<exists>x. m = Inr x \<and> g x = Inr y)"
  by (cases m) (simp_all add: exn_bind_def)

lemma Observatory_init_stages:
  "Observatory_init rt (Some c) =
     exn_bind (setup_location rt
                 \<lparr>config = c, location = None, mount = None, cameras = [], scheduler = None\<rparr>) (\<lambda>s1.
     exn_bind (create_mount rt (s1\<lparr>mount := None, cameras := [], scheduler := None\<rparr>) PNone) (\<lambda>s2.
     exn_bind (create_cameras rt s2 PNone) (\<lambda>s3. create_scheduler rt s3)))"
  by (simp add: Observatory_init_def)

lemma setup_location_preserves:
  "setup_location rt self = Inr self' \<Longrightarrow>
     config self' = config self \<and> mount self' = mount self \<and>
     cameras self' = cameras self \<and> scheduler self' = scheduler self"
  by (auto simp: setup_location_def Let_def exn_bind_Inr split: if_splits)

lemma create_mount_preserves:
  "create_mount rt self mi = Inr self' \<Longrightarrow>
     config self' = config self \<and> scheduler self' = scheduler self"
  by (auto simp: create_mount_def Let_def exn_bind_Inr)

lemma create_cameras_preserves:
  "create_cameras rt self ci = Inr self' \<Longrightarrow>
     config self' = config self \<and> scheduler self' = scheduler self"
  by (auto simp: create_cameras_def Let_def exn_bind_Inr)

lemma config_get_absent: "k \<notin> fst ` set cfg \<Longrightarrow> config_get cfg k = PNone"
proof -
  assume "k \<notin> fst ` set cfg"
  then have "map_of cfg k = None" by (simp add: map_of_eq_None_iff)
  then show ?thesis by (simp add: config_get_def)
qed

subsection \<open>Cameras\<close>

lemma cameras_loop_prefix:
  "\<forall>c\<in>set pre. \<exists>h. create_camera rt c = Inr h \<Longrightarrow>
     \<exists>hs. cameras_loop rt (pre @ rest) acc = cameras_loop rt rest (acc @ hs)"
proof (induction pre arbitrary: acc)
  case Nil
  have "cameras_loop rt ([] @ rest) acc = cameras_loop rt rest (acc @ [])" by simp
  then show ?case by blast
next
  case (Cons c pre)
  from Cons.prems obtain h where h: "create_camera rt c = Inr h" by auto
  from Cons.prems have "\<forall>c\<in>set pre. \<exists>h. create_camera rt c = Inr h" by simp
  from Cons.IH [OF this, of "acc @ [h]"]
  obtain hs where "cameras_loop rt (pre @ rest) (acc @ [h]) = cameras_loop rt rest ((acc @ [h]) @ hs)"
    by blast
  with h have "cameras_loop rt ((c # pre) @ rest) acc = cameras_loop rt rest (acc @ (h # hs))"
    by simp
  then show ?case by blast
qed

lemma cameras_loop_all:
  "\<forall>c\<in>set entries. create_camera rt c = Inr (f c) \<Longrightarrow>
     cameras_loop rt entries acc = Inr (acc @ map f entries)"
  by (induction entries arbitrary: acc) auto

lemma create_camera_ImportError:
  "py_get bad ''model'' PNone = Inr m \<Longrightarrow>
   load_module rt (''panoptes.camera.'' @ str_format rt m) = Inl (ImportError x) \<Longrightarrow>
     create_camera rt bad = Inl (NotFound m)"
  by (simp add: create_camera_def exn_bind_def)

lemma cameras_loop_first_bad:
  assumes "\<forall>c\<in>set pre. \<exists>h. create_camera rt c = Inr h"
    and "create_camera rt bad = Inl e"
  shows "cameras_loop rt (pre @ bad # post) acc = Inl e"
proof -
  from cameras_loop_prefix [OF assms(1), of "bad # post" acc]
  obtain hs where "cameras_loop rt (pre @ bad # post) acc = cameras_loop rt (bad # post) (acc @ hs)"
    by blast
  with assms(2) show ?thesis by simp
qed

text \<open>
  Against C1 as stated: with the cameras \<open>simulator\<close> and \<open>bogus\<close> configured, and only
  the simulator module importable, the construction of the observatory raises
  \<open>NotFound\<close>; no observatory and no camera come out of it.
\<close>

theorem two_cameras_construction_fails:
  "Observatory_init sim_runtime (Some config_two_cameras) = Inl (NotFound (PStr ''bogus''))"
  by (simp add: ex_defs)

text \<open>
  C1, amended (a camera list with resolvable and unresolvable models). The entries are
  resolved in order. The \<open>ImportError\<close> of the first entry that cannot be resolved is
  caught and converted to the structured \<open>NotFound\<close> error carrying the model of that
  entry, and this error leaves the loop: \<open>_create_cameras\<close> raises it whatever the
  entries before and after, no camera is stored, and a construction that got as far as
  the cameras fails with it. When every entry resolves, a camera is stored for each
  entry, in order.
\<close>

theorem create_cameras_aborts_at_first_unresolvable:
  "(config_get (config self) ''cameras'' = PList (pre @ bad # post) \<and>
    (\<forall>c\<in>set pre. \<exists>h. create_camera rt c = Inr h) \<and>
    py_get bad ''model'' PNone = Inr m \<and>
    load_module rt (''panoptes.camera.'' @ str_format rt m) = Inl (ImportError x)
      \<longrightarrow> create_cameras rt self ci = Inl (NotFound m)) \<and>
   (config_get (config self) ''cameras'' = PList entries \<and>
    (\<forall>c\<in>set entries. create_camera rt c = Inr (f c))
      \<longrightarrow> create_cameras rt self ci = Inr (self\<lparr>cameras := map f entries\<rparr>)) \<and>
   (setup_location rt \<lparr>config = cfg, location = None, mount = None, cameras = [],
                        scheduler = None\<rparr> = Inr s1 \<and>
    create_mount rt (s1\<lparr>mount := None, cameras := [], scheduler := None\<rparr>) PNone = Inr s2 \<and>
    create_cameras rt s2 PNone = Inl e
      \<longrightarrow> Observatory_init rt (Some cfg) = Inl e)"
proof (intro conjI impI)
  assume a: "config_get (config self) ''cameras'' = PList (pre @ bad # post) \<and>
    (\<forall>c\<in>set pre. \<exists>h. create_camera rt c = Inr h) \<and>
    py_get bad ''model'' PNone = Inr m \<and>
    load_module rt (''panoptes.camera.'' @ str_format rt m) = Inl (ImportError x)"
  then have "create_camera rt bad = Inl (NotFound m)"
    by (simp add: create_camera_ImportError)
  with a have "cameras_loop rt (pre @ bad # post) [] = Inl (NotFound m)"
    by (simp add: cameras_loop_first_bad)
  with a show "create_cameras rt self ci = Inl (NotFound m)"
    by (simp add: create_cameras_def exn_bind_def)
next
  assume a: "config_get (config self) ''cameras'' = PList entries \<and>
    (\<forall>c\<in>set entries. create_camera rt c = Inr (f c))"
  then have "cameras_loop rt entries [] = Inr ([] @ map f entries)"
    by (intro cameras_loop_all) simp
  with a show "create_cameras rt self ci = Inr (self\<lparr>cameras := map f entries\<rparr>)"
    by (simp add: create_cameras_def exn_bind_def)
next
  assume "setup_location rt \<lparr>config = cfg, location = None, mount = None, cameras = [],
                        scheduler = None\<rparr> = Inr s1 \<and>
    create_mount rt (s1\<lparr>mount := None, cameras := [], scheduler := None\<rparr>) PNone = Inr s2 \<and>
    create_cameras rt s2 PNone = Inl e"
  then show "Observatory_init rt (Some cfg) = Inl e"
    by (simp add: Observatory_init_stages exn_bind_def)
qed

theorem create_cameras_aborts_at_first_unresolvable_witness:
  "create_cameras sim_runtime (obs_new config_two_cameras) PNone = Inl (NotFound (PStr ''bogus'')) \<and>
   create_cameras sim_runtime (obs_new config_ok) PNone =
     Inr ((obs_new config_ok)\<lparr>cameras :=
            [CameraObj ''panoptes.camera.simulator'' (PDict [(''model'', PStr ''simulator'')])]\<rparr>) \<and>
   Observatory_init sim_runtime (Some config_two_cameras) = Inl (NotFound (PStr ''bogus''))"
proof -
  let ?sim = "PDict [(''model'', PStr ''simulator'')]"
  let ?bogus = "PDict [(''model'', PStr ''bogus'')]"
  have a1: "config_get (config (obs_new config_two_cameras)) ''cameras'' = PList ([?sim] @ ?bogus # [])"
    by (simp add: ex_defs)
  have a2: "\<forall>c\<in>set [?sim]. \<exists>h. create_camera sim_runtime c = Inr h"
    by (simp add: ex_defs)
  have a3: "py_get ?bogus ''model'' PNone = Inr (PStr ''bogus'')" by simp
  have a4: "load_module sim_runtime (''panoptes.camera.'' @ str_format sim_runtime (PStr ''bogus''))
              = Inl (ImportError ''panoptes.camera.bogus'')"
    by (simp add: ex_defs)
  have b1: "config_get (config (obs_new config_ok)) ''cameras'' = PList [?sim]"
    by (simp add: ex_defs)
  have b2: "\<forall>c\<in>set [?sim]. create_camera sim_runtime c = Inr (CameraObj ''panoptes.camera.simulator'' c)"
    by (simp add: ex_defs)
  have c1: "setup_location sim_runtime \<lparr>config = config_two_cameras, location = None, mount = None,
               cameras = [], scheduler = None\<rparr>
            = Inr (obs_ok\<lparr>config := config_two_cameras, mount := None, cameras := []\<rparr>)"
    by (simp add: ex_defs)
  have c2: "create_mount sim_runtime
              ((obs_ok\<lparr>config := config_two_cameras, mount := None, cameras := []\<rparr>)
                 \<lparr>mount := None, cameras := [], scheduler := None\<rparr>) PNone
            = Inr (obs_ok\<lparr>config := config_two_cameras, cameras := []\<rparr>)"
    by (simp add: ex_defs)
  have c3: "create_cameras sim_runtime (obs_ok\<lparr>config := config_two_cameras, cameras := []\<rparr>) PNone
            = Inl (NotFound (PStr ''bogus''))"
    by (simp add: ex_defs)
  from create_cameras_aborts_at_first_unresolvable
         [where self = "obs_new config_two_cameras" and pre = "[?sim]" and bad = ?bogus and post = "[]"
            and rt = sim_runtime and m = "PStr ''bogus''" and x = "''panoptes.camera.bogus''"
            and ci = PNone and entries = "[?sim]"
            and f = "CameraObj ''panoptes.camera.simulator''"
            and cfg = config_two_cameras
            and ?s1.0 = "obs_ok\<lparr>config := config_two_cameras, mount := None, cameras := []\<rparr>"
            and ?s2.0 = "obs_ok\<lparr>config := config_two_cameras, cameras := []\<rparr>"
            and e = "NotFound (PStr ''bogus'')"]
       a1 a2 a3 a4 c1 c2 c3
  have "create_cameras sim_runtime (obs_new config_two_cameras) PNone = Inl (NotFound (PStr ''bogus''))"
       "Observatory_init sim_runtime (Some config_two_cameras) = Inl (NotFound (PStr ''bogus''))"
    by simp_all
  moreover
  from create_cameras_aborts_at_first_unresolvable
         [where self = "obs_new config_ok" and rt = sim_runtime and ci = PNone and entries = "[?sim]"
            and f = "CameraObj ''panoptes.camera.simulator''"]
       b1 b2
  have "create_cameras sim_runtime (obs_new config_ok) PNone =
     Inr ((obs_new config_ok)\<lparr>cameras :=
            [CameraObj ''panoptes.camera.simulator'' (PDict [(''model'', PStr ''simulator'')])]\<rparr>)"
    by simp
  ultimately show ?thesis by simp
qed

text \<open>
  C10 (the camera list falls back to the mount entry; the argument is ignored).
  \<open>_create_cameras\<close> returns the same whatever \<open>camera_info\<close> it is given: it reads the
  list from the configuration. For a configuration without the key \<open>cameras\<close> it
  iterates the \<open>mount\<close> entry in place of the camera list: it runs the loop over what
  iterating that entry yields and stores the cameras the loop built. So a mount entry
  that is a list of camera entries gives one camera for each, and a mount entry that is
  a non-empty dictionary gives its keys to the loop, which fails on the first one, a
  string without \<open>get\<close>. With a camera list in the configuration it is that list that
  is iterated, whatever the argument.
\<close>

theorem create_cameras_fallback:
  "create_cameras rt self ci = create_cameras rt self ci' \<and>
   (''cameras'' \<notin> fst ` set (config self) \<longrightarrow>
      create_cameras rt self ci =
        exn_bind (py_iter (config_get (config self) ''mount'')) (\<lambda>entries.
        exn_bind (cameras_loop rt entries []) (\<lambda>cams. Inr (self\<lparr>cameras := cams\<rparr>)))) \<and>
   (''cameras'' \<notin> fst ` set (config self) \<and> config_get (config self) ''mount'' = PList entries \<and>
    (\<forall>c\<in>set entries. create_camera rt c = Inr (f c)) \<longrightarrow>
      create_cameras rt self ci = Inr (self\<lparr>cameras := map f entries\<rparr>)) \<and>
   (''cameras'' \<notin> fst ` set (config self) \<and>
    config_get (config self) ''mount'' = PDict ((k, v) # kvs) \<longrightarrow>
      create_cameras rt self ci = Inl (AttributeError ''get'')) \<and>
   (config_get (config self) ''cameras'' \<noteq> PNone \<longrightarrow>
      create_cameras rt self ci =
        exn_bind (py_iter (config_get (config self) ''cameras'')) (\<lambda>entries.
        exn_bind (cameras_loop rt entries []) (\<lambda>cams. Inr (self\<lparr>cameras := cams\<rparr>))))"
proof (intro conjI impI)
  show "create_cameras rt self ci = create_cameras rt self ci'"
    by (simp add: create_cameras_def)
next
  assume "''cameras'' \<notin> fst ` set (config self)"
  then have "config_get (config self) ''cameras'' = PNone" by (rule config_get_absent)
  then show "create_cameras rt self ci =
        exn_bind (py_iter (config_get (config self) ''mount'')) (\<lambda>entries.
        exn_bind (cameras_loop rt entries []) (\<lambda>cams. Inr (self\<lparr>cameras := cams\<rparr>)))"
    by (simp add: create_cameras_def)
next
  assume a: "''cameras'' \<notin> fst ` set (config self) \<and> config_get (config self) ''mount'' = PList entries \<and>
    (\<forall>c\<in>set entries. create_camera rt c = Inr (f c))"
  then have "config_get (config self) ''cameras'' = PNone" by (simp add: config_get_absent)
  moreover from a have "cameras_loop rt entries [] = Inr ([] @ map f entries)"
    by (intro cameras_loop_all) simp
  ultimately show "create_cameras rt self ci = Inr (self\<lparr>cameras := map f entries\<rparr>)"
    using a by (simp add: create_cameras_def exn_bind_def)
next
  assume a: "''cameras'' \<notin> fst ` set (config self) \<and>
    config_get (config self) ''mount'' = PDict ((k, v) # kvs)"
  then have "config_get (config self) ''cameras'' = PNone" by (simp add: config_get_absent)
  with a show "create_cameras rt self ci = Inl (AttributeError ''get'')"
    by (simp add: create_cameras_def create_camera_def exn_bind_def)
next
  assume "config_get (config self) ''cameras'' \<noteq> PNone"
  then show "create_cameras rt self ci =
        exn_bind (py_iter (config_get (config self) ''cameras'')) (\<lambda>entries.
        exn_bind (cameras_loop rt entries []) (\<lambda>cams. Inr (self\<lparr>cameras := cams\<rparr>)))"
    by (simp add: create_cameras_def)
qed

theorem create_cameras_fallback_witness:
  "''cameras'' \<notin> fst ` set (config (obs_new config_no_cameras)) \<and>
   config_get (config (obs_new config_no_cameras)) ''mount'' = PDict [(''model'', PStr ''simulator'')] \<and>
   create_cameras sim_runtime (obs_new config_no_cameras) (PList []) = Inl (AttributeError ''get'') \<and>
   ''cameras'' \<notin> fst ` set (config (obs_new mount_as_list)) \<and>
   config_get (config (obs_new mount_as_list)) ''mount'' = PList [PDict [(''model'', PStr ''simulator'')]] \<and>
   create_cameras sim_runtime (obs_new mount_as_list) (PList []) =
     Inr ((obs_new mount_as_list)\<lparr>cameras :=
            [CameraObj ''panoptes.camera.simulator'' (PDict [(''model'', PStr ''simulator'')])]\<rparr>) \<and>
   config_get (config (obs_new config_ok)) ''cameras'' \<noteq> PNone \<and>
   create_cameras sim_runtime (obs_new config_ok) (PList []) =
     Inr ((obs_new config_ok)\<lparr>cameras :=
            [CameraObj ''panoptes.camera.simulator'' (PDict [(''model'', PStr ''simulator'')])]\<rparr>)"
proof -
  let ?sim = "PDict [(''model'', PStr ''simulator'')]"
  have a: "''cameras'' \<notin> fst ` set (config (obs_new config_no_cameras))"
          "config_get (config (obs_new config_no_cameras)) ''mount'' = PDict ((''model'', PStr ''simulator'') # [])"
    by (simp_all add: ex_defs)
  have b: "''cameras'' \<notin> fst ` set (config (obs_new mount_as_list))"
          "config_get (config (obs_new mount_as_list)) ''mount'' = PList [?sim]"
          "\<forall>c\<in>set [?sim]. create_camera sim_runtime c = Inr (CameraObj ''panoptes.camera.simulator'' c)"
    by (simp_all add: ex_defs)
  have c: "config_get (config (obs_new config_ok)) ''cameras'' \<noteq> PNone"
          "config_get (config (obs_new config_ok)) ''cameras'' = PList [?sim]"
    by (simp_all add: ex_defs)
  from create_cameras_fallback
         [where rt = sim_runtime and self = "obs_new config_no_cameras" and ci = "PList []"
            and k = "''model''" and v = "PStr ''simulator''" and kvs = "[]"] a
  have 1: "create_cameras sim_runtime (obs_new config_no_cameras) (PList []) = Inl (AttributeError ''get'')"
    by blast
  from create_cameras_fallback
         [where rt = sim_runtime and self = "obs_new mount_as_list" and ci = "PList []"
            and entries = "[?sim]" and f = "CameraObj ''panoptes.camera.simulator''"] b
  have "create_cameras sim_runtime (obs_new mount_as_list) (PList []) =
     Inr ((obs_new mount_as_list)\<lparr>cameras := map (CameraObj ''panoptes.camera.simulator'') [?sim]\<rparr>)"
    by blast
  then have 2: "create_cameras sim_runtime (obs_new mount_as_list) (PList []) =
     Inr ((obs_new mount_as_list)\<lparr>cameras := [CameraObj ''panoptes.camera.simulator'' ?sim]\<rparr>)"
    by simp
  from create_cameras_fallback
         [where rt = sim_runtime and self = "obs_new config_ok" and ci = "PList []"] c
  have "create_cameras sim_runtime (obs_new config_ok) (PList []) =
     exn_bind (py_iter (config_get (config (obs_new config_ok)) ''cameras'')) (\<lambda>entries.
     exn_bind (cameras_loop sim_runtime entries []) (\<lambda>cams. Inr ((obs_new config_ok)\<lparr>cameras := cams\<rparr>)))"
    by blast
  then have 3: "create_cameras sim_runtime (obs_new config_ok) (PList []) =
     Inr ((obs_new config_ok)\<lparr>cameras := [CameraObj ''panoptes.camera.simulator'' ?sim]\<rparr>)"
    by (simp add: ex_defs)
  from a b c 1 2 3 show ?thesis by simp
qed

subsection \<open>The scheduler\<close>

lemma create_scheduler_missing_file:
  "targets_path (config self) = Inr p \<Longrightarrow> \<not> path_exists rt p \<Longrightarrow>
     create_scheduler rt self = Inr self"
  by (simp add: create_scheduler_def exn_bind_def)

text \<open>
  Against C2 as stated: \<open>config_ok\<close> names a targets file that does not exist. The
  construction returns \<open>obs_ok\<close>, and \<open>get_target\<close> on it raises Python's
  \<open>AttributeError\<close>, which is none of the project's structured errors.
\<close>

theorem get_target_raises_AttributeError:
  "Observatory_init sim_runtime (Some config_ok) = Inr obs_ok \<and>
   get_target sim_runtime obs_ok = Inl (AttributeError ''get_target'') \<and>
   \<not> is_project_error (AttributeError ''get_target'')"
  by (simp add: ex_defs)

text \<open>
  C2, amended (a targets file that does not exist). When the location, the mount and
  the cameras are set up and the path of the targets file, joined from \<open>base_dir\<close> and
  \<open>targets_file\<close>, does not exist, the construction returns normally, with the
  observatory that the camera stage produced and no scheduler. Every call of
  \<open>get_target\<close> on it then raises \<open>AttributeError\<close>, the failed lookup of \<open>get_target\<close>
  on \<open>None\<close>, not a structured error; the call changes nothing, so it fails the same
  way each time.
\<close>

theorem missing_targets_file_no_scheduler:
  assumes loc: "setup_location rt \<lparr>config = c, location = None, mount = None, cameras = [],
                   scheduler = None\<rparr> = Inr s1"
    and mnt: "create_mount rt (s1\<lparr>mount := None, cameras := [], scheduler := None\<rparr>) PNone = Inr s2"
    and cams: "create_cameras rt s2 PNone = Inr self"
    and path: "targets_path c = Inr p"
    and missing: "\<not> path_exists rt p"
  shows "Observatory_init rt (Some c) = Inr self \<and> scheduler self = None \<and>
         get_target rt self = Inl (AttributeError ''get_target'') \<and>
         \<not> is_project_error (AttributeError ''get_target'')"
proof -
  from setup_location_preserves [OF loc] have c1: "config s1 = c" by simp
  from create_mount_preserves [OF mnt] c1 have c2: "config s2 = c" "scheduler s2 = None"
    by simp_all
  from create_cameras_preserves [OF cams] c2 have c3: "config self = c" "scheduler self = None"
    by simp_all
  from c3 path missing have "create_scheduler rt self = Inr self"
    by (simp add: create_scheduler_missing_file)
  with loc mnt cams have "Observatory_init rt (Some c) = Inr self"
    by (simp add: Observatory_init_stages exn_bind_def)
  with c3 show ?thesis by (simp add: get_target_def)
qed

theorem missing_targets_file_no_scheduler_witness:
  "targets_path config_ok =
     Inr ''/var/panoptes/POCS/resources/conf_files/targets/default_targets.yaml'' \<and>
   \<not> path_exists sim_runtime
       ''/var/panoptes/POCS/resources/conf_files/targets/default_targets.yaml'' \<and>
   Observatory_init sim_runtime (Some config_ok) = Inr obs_ok \<and> scheduler obs_ok = None \<and>
   get_target sim_runtime obs_ok = Inl (AttributeError ''get_target'')"
proof -
  have loc: "setup_location sim_runtime \<lparr>config = config_ok, location = None, mount = None,
               cameras = [], scheduler = None\<rparr> = Inr (obs_ok\<lparr>mount := None, cameras := []\<rparr>)"
    by (simp add: ex_defs)
  have mnt: "create_mount sim_runtime
               ((obs_ok\<lparr>mount := None, cameras := []\<rparr>)\<lparr>mount := None, cameras := [], scheduler := None\<rparr>)
               PNone = Inr (obs_ok\<lparr>cameras := []\<rparr>)"
    by (simp add: ex_defs)
  have cams: "create_cameras sim_runtime (obs_ok\<lparr>cameras := []\<rparr>) PNone = Inr obs_ok"
    by (simp add: ex_defs)
  have path: "targets_path config_ok =
                Inr ''/var/panoptes/POCS/resources/conf_files/targets/default_targets.yaml''"
    by (simp add: ex_defs)
  have missing: "\<not> path_exists sim_runtime
                   ''/var/panoptes/POCS/resources/conf_files/targets/default_targets.yaml''"
    by (simp add: sim_runtime_def)
  from missing_targets_file_no_scheduler [OF loc mnt cams path missing] path missing
  show ?thesis by simp
qed

subsection \<open>The location\<close>

text \<open>
  Against C9 as stated: the location of \<open>config_no_timezone\<close> has a latitude and a
  longitude and no timezone. The construction does not fail: it returns an observatory
  whose timezone is \<open>None\<close>.
\<close>

theorem missing_timezone_accepted:
  "Observatory_init sim_runtime (Some config_no_timezone) = Inr obs_no_timezone \<and>
   map_option timezone (location obs_no_timezone) = Some PNone"
  by (simp add: ex_defs)

lemma py_get_dict: "py_get (PDict kvs) k d = Inr (get_or kvs k d)"
  by (simp add: get_or_def)

text \<open>
  C9, amended (absent or malformed location data). A configuration without the key
  \<open>location\<close> fails the construction at once with the structured \<open>error.Error\<close> named
  \<open>Bad site information\<close>. The fields of a location that is present are not validated.
  Whenever the units library attaches the units to the five numeric fields (the values
  found, or the defaults of pressure, elevation and horizon), \<open>_setup_location\<close>
  returns normally, whether or not there is a name or a timezone: a missing timezone is
  stored as \<open>None\<close>. And when attaching the unit to the latitude (\<open>None\<close> for a missing
  one) raises, that exception of the units library is what \<open>_setup_location\<close> raises.
\<close>

theorem location_validation:
  "(''location'' \<notin> fst ` set c \<longrightarrow>
      Observatory_init rt (Some c) = Inl (Error (PStr ''Bad site information'')) \<and>
      is_project_error (Error (PStr ''Bad site information''))) \<and>
   (''location'' \<in> fst ` set (config self) \<and> config_get (config self) ''location'' = PDict site \<and>
    times_unit rt (get_or site ''latitude'' PNone) Degree = Inr lat \<and>
    times_unit rt (get_or site ''longitude'' PNone) Degree = Inr lon \<and>
    times_unit rt (get_or site ''pressure'' (PFloat 0.680)) Bar = Inr pr \<and>
    times_unit rt (get_or site ''elevation'' (PInt 0)) Meter = Inr el \<and>
    times_unit rt (get_or site ''horizon'' (PInt 0)) Degree = Inr hz \<longrightarrow>
      setup_location rt self =
        Inr (self\<lparr>location := Some
               \<lparr>site_name = get_or site ''name'' (PStr ''Nameless Location''),
                latitude = lat, longitude = lon, elevation = el,
                timezone = get_or site ''timezone'' PNone, pressure = pr, horizon = hz\<rparr>\<rparr>)) \<and>
   (''location'' \<in> fst ` set (config self) \<and> config_get (config self) ''location'' = PDict site \<and>
    times_unit rt (get_or site ''latitude'' PNone) Degree = Inl e \<longrightarrow>
      setup_location rt self = Inl e)"
proof (intro conjI impI)
  assume "''location'' \<notin> fst ` set c"
  then show "Observatory_init rt (Some c) = Inl (Error (PStr ''Bad site information''))"
    by (simp add: Observatory_init_def setup_location_def exn_bind_def)
next
  show "is_project_error (Error (PStr ''Bad site information''))" by simp
next
  assume "''location'' \<in> fst ` set (config self) \<and> config_get (config self) ''location'' = PDict site \<and>
    times_unit rt (get_or site ''latitude'' PNone) Degree = Inr lat \<and>
    times_unit rt (get_or site ''longitude'' PNone) Degree = Inr lon \<and>
    times_unit rt (get_or site ''pressure'' (PFloat 0.680)) Bar = Inr pr \<and>
    times_unit rt (get_or site ''elevation'' (PInt 0)) Meter = Inr el \<and>
    times_unit rt (get_or site ''horizon'' (PInt 0)) Degree = Inr hz"
  then show "setup_location rt self =
        Inr (self\<lparr>location := Some
               \<lparr>site_name = get_or site ''name'' (PStr ''Nameless Location''),
                latitude = lat, longitude = lon, elevation = el,
                timezone = get_or site ''timezone'' PNone, pressure = pr, horizon = hz\<rparr>\<rparr>)"
    by (simp add: setup_location_def Let_def exn_bind_def py_get_dict del: py_get.simps)
next
  assume "''location'' \<in> fst ` set (config self) \<and> config_get (config self) ''location'' = PDict site \<and>
    times_unit rt (get_or site ''latitude'' PNone) Degree = Inl e"
  then show "setup_location rt self = Inl e"
    by (simp add: setup_location_def Let_def exn_bind_def py_get_dict del: py_get.simps)
qed

theorem location_validation_witness:
  "''location'' \<notin> fst ` set [(''mount'', PDict [(''model'', PStr ''simulator'')])] \<and>
   Observatory_init sim_runtime (Some [(''mount'', PDict [(''model'', PStr ''simulator'')])]) =
     Inl (Error (PStr ''Bad site information'')) \<and>
   map_of [(''latitude'', PFloat 19.54), (''longitude'', PFloat (- 155.58))] ''timezone'' = None \<and>
   setup_location sim_runtime (obs_new config_no_timezone) =
     Inr (obs_no_timezone\<lparr>mount := None, cameras := []\<rparr>) \<and>
   map_option timezone (location (obs_no_timezone\<lparr>mount := None, cameras := []\<rparr>)) = Some PNone \<and>
   times_unit sim_runtime PNone Degree = Inl TypeError \<and>
   setup_location sim_runtime (obs_new [(''location'', PDict [])]) = Inl TypeError"
proof -
  let ?site = "[(''latitude'', PFloat 19.54), (''longitude'', PFloat (- 155.58))]"
  have a: "''location'' \<notin> fst ` set [(''mount'', PDict [(''model'', PStr ''simulator'')])]"
    by simp
  have b: "''location'' \<in> fst ` set (config (obs_new config_no_timezone)) \<and>
     config_get (config (obs_new config_no_timezone)) ''location'' = PDict ?site \<and>
     times_unit sim_runtime (get_or ?site ''latitude'' PNone) Degree = Inr (Quantity (PFloat 19.54) Degree) \<and>
     times_unit sim_runtime (get_or ?site ''longitude'' PNone) Degree = Inr (Quantity (PFloat (- 155.58)) Degree) \<and>
     times_unit sim_runtime (get_or ?site ''pressure'' (PFloat 0.680)) Bar = Inr (Quantity (PFloat 0.680) Bar) \<and>
     times_unit sim_runtime (get_or ?site ''elevation'' (PInt 0)) Meter = Inr (Quantity (PInt 0) Meter) \<and>
     times_unit sim_runtime (get_or ?site ''horizon'' (PInt 0)) Degree = Inr (Quantity (PInt 0) Degree)"
    by (simp add: ex_defs get_or_def)
  have c: "''location'' \<in> fst ` set (config (obs_new [(''location'', PDict [])])) \<and>
     config_get (config (obs_new [(''location'', PDict [])])) ''location'' = PDict [] \<and>
     times_unit sim_runtime (get_or [] ''latitude'' PNone) Degree = Inl TypeError"
    by (simp add: ex_defs get_or_def)
  from location_validation
         [where c = "[(''mount'', PDict [(''model'', PStr ''simulator'')])]" and rt = sim_runtime] a
  have 1: "Observatory_init sim_runtime (Some [(''mount'', PDict [(''model'', PStr ''simulator'')])]) =
          Inl (Error (PStr ''Bad site information''))"
    by simp
  from location_validation
         [where rt = sim_runtime and self = "obs_new config_no_timezone" and site = ?site
            and lat = "Quantity (PFloat 19.54) Degree" and lon = "Quantity (PFloat (- 155.58)) Degree"
            and pr = "Quantity (PFloat 0.680) Bar" and el = "Quantity (PInt 0) Meter"
            and hz = "Quantity (PInt 0) Degree"] b
  have 2: "setup_location sim_runtime (obs_new config_no_timezone) =
     Inr (obs_no_timezone\<lparr>mount := None, cameras := []\<rparr>)"
    by (simp add: ex_defs get_or_def)
  from location_validation
         [where rt = sim_runtime and self = "obs_new [(''location'', PDict [])]" and site = "[]"
            and e = TypeError] c
  have 3: "setup_location sim_runtime (obs_new [(''location'', PDict [])]) = Inl TypeError"
    by simp
  from a 1 2 3 c show ?thesis by (simp add: ex_defs get_or_def)
qed

end
